theory Spec2Isabelle
  imports Complex_Main
begin

section \<open>The translation session of PinkSync: data\<close>

text \<open>
  The development embeds two source files: \<^verbatim>\<open>src/contexts/websocket-context.tsx\<close>
  (the provider of the streaming channel) and \<^verbatim>\<open>src/components/sign-language-demo.tsx\<close>
  (the component that records, sends and shows the translation).
\<close>

subsection \<open>Results and messages\<close>

text \<open>
  \<^verbatim>\<open>interface TranslationResult { text: string; confidence: number; features_detected: boolean }\<close>
  The field \<^verbatim>\<open>text\<close> is written \<open>text'\<close> here.
\<close>

record TranslationResult =
  text' :: string
  confidence :: real
  features_detected :: bool

text \<open>
  The handler's parameter is \<^verbatim>\<open>message: any\<close>. It reads three properties of it:
  \<^verbatim>\<open>message.type\<close>, \<^verbatim>\<open>message.data\<close> and \<^verbatim>\<open>message.message\<close>; \<open>None\<close> stands
  for a property that is absent or null. Whatever else the object carries is the record's
  extension; the handler is defined on every extension and cannot read it.
\<close>

record message =
  msg_type :: string
  msg_data :: "TranslationResult option"
  msg_message :: "string option"

text \<open>A message that carries the identity of the session it answers.\<close>

record tagged_message = message +
  session_id :: nat

subsection \<open>The streaming channel: \<^verbatim>\<open>WebSocketProvider\<close>\<close>

text \<open>
  The context value: \<^verbatim>\<open>socket: Socket | null\<close> (a socket is named by a number) and
  \<^verbatim>\<open>isConnected: boolean\<close>. The functions \<^verbatim>\<open>sendMessage\<close>, \<^verbatim>\<open>onMessage\<close>
  and \<^verbatim>\<open>offMessage\<close> of the value are closures over these two and over the registry.
\<close>

record ws_context =
  socket :: "nat option"
  isConnected :: bool

text \<open>
  The body every translation request carries. \<open>video_data\<close> is the value of
  \<^verbatim>\<open>reader.result\<close>, which is null after a read that failed.
\<close>

record request =
  video_data :: "string option"
  source_language :: string
  target_language :: string

text \<open>
  What leaves the client: \<^verbatim>\<open>socket.emit("message", { type, data })\<close> on a socket, or the
  \<^verbatim>\<open>fetch\<close> of the fallback (URL, Authorization header, body).
\<close>

datatype action =
  Emit nat string request
| Post string string request

text \<open>
  \<^verbatim>\<open>
  const sendMessage = (type: string, data: any) => {
    if (socket && isConnected) {
      socket.emit("message", { type, data })
    }
  }
  \<close>
  The function returns nothing, sets no state and has no other branch: its whole effect is
  the list of what it emits.
\<close>

definition sendMessage :: "ws_context \<Rightarrow> string \<Rightarrow> request \<Rightarrow> action list" where
  "sendMessage ctx ty d =
     (case socket ctx of
        Some sk \<Rightarrow> (if isConnected ctx then [Emit sk ty d] else [])
      | None \<Rightarrow> [])"

text \<open>
  The handlers of the socket's \<^verbatim>\<open>connect\<close> and \<^verbatim>\<open>disconnect\<close> events, and the
  effect's cleanup:
  \<^verbatim>\<open>
  newSocket.on("connect", () => { setIsConnected(true) })
  newSocket.on("disconnect", () => { setIsConnected(false) })
  return () => { newSocket.close(); setSocket(null); setIsConnected(false) }
  \<close>
  The \<^verbatim>\<open>disconnect\<close> handler does nothing else: no callback of the registry is called and
  no message is made up for the subscribers.
\<close>

definition on_connect :: "ws_context \<Rightarrow> ws_context" where
  "on_connect ctx = ctx\<lparr>isConnected := True\<rparr>"

definition on_disconnect :: "ws_context \<Rightarrow> ws_context" where
  "on_disconnect ctx = ctx\<lparr>isConnected := False\<rparr>"

definition cleanup :: "ws_context \<Rightarrow> ws_context" where
  "cleanup ctx = ctx\<lparr>socket := None, isConnected := False\<rparr>"

text \<open>
  The context values the provider renders. Both cells start empty
  (\<^verbatim>\<open>useState<Socket | null>(null)\<close>, \<^verbatim>\<open>useState(false)\<close>). \<open>Open\<close> is the effect with a
  user signed in, \<^verbatim>\<open>setSocket(newSocket)\<close>; \<open>Close\<close> is its cleanup. The effect runs at
  the mount and after its cleanup, so it finds the cell empty; the \<^verbatim>\<open>connect\<close> event
  comes from the socket the effect made and not from one that \<^verbatim>\<open>close()\<close> has been
  called on, so it finds a socket in the cell.
\<close>

datatype provider_event = Open nat | Connect | Disconnect | Close

fun provider_step :: "provider_event \<Rightarrow> ws_context \<Rightarrow> ws_context" where
  "provider_step (Open sk) ctx =
     (case socket ctx of None \<Rightarrow> ctx\<lparr>socket := Some sk\<rparr> | Some sk' \<Rightarrow> ctx)"
| "provider_step Connect ctx = (case socket ctx of Some sk \<Rightarrow> on_connect ctx | None \<Rightarrow> ctx)"
| "provider_step Disconnect ctx = on_disconnect ctx"
| "provider_step Close ctx = cleanup ctx"

fun provider_run :: "provider_event list \<Rightarrow> ws_context \<Rightarrow> ws_context" where
  "provider_run [] ctx = ctx"
| "provider_run (e # es) ctx = provider_run es (provider_step e ctx)"

definition provider_initial :: ws_context where
  "provider_initial = \<lparr>socket = None, isConnected = False\<rparr>"

text \<open>
  \<^verbatim>\<open>messageCallbacks = useRef<Set<(message: any) => void>>(new Set())\<close>.
  A JavaScript \<^verbatim>\<open>Set\<close> keeps its elements in insertion order and \<^verbatim>\<open>forEach\<close> visits
  them in that order, so the registry is a list; \<^verbatim>\<open>add\<close> of a member changes nothing,
  \<^verbatim>\<open>delete\<close> removes the member. Callbacks are compared by identity: \<open>'cb\<close> is the type
  of their identities.
\<close>

text \<open>
  \<^verbatim>\<open>
  const onMessage = (callback) => { messageCallbacks.current.add(callback) }
  const offMessage = (callback) => { messageCallbacks.current.delete(callback) }
  \<close>
\<close>

definition onMessage :: "'cb \<Rightarrow> 'cb list \<Rightarrow> 'cb list" where
  "onMessage cb cbs = (if cb \<in> set cbs then cbs else cbs @ [cb])"

definition offMessage :: "'cb \<Rightarrow> 'cb list \<Rightarrow> 'cb list" where
  "offMessage cb cbs = removeAll cb cbs"

text \<open>
  \<^verbatim>\<open>newSocket.on("message", (message) => { messageCallbacks.current.forEach((callback) => callback(message)) })\<close>:
  the calls made for one incoming message, in order.
\<close>

definition on_message :: "'cb list \<Rightarrow> 'm \<Rightarrow> ('cb \<times> 'm) list" where
  "on_message cbs m = map (\<lambda>cb. (cb, m)) cbs"

subsection \<open>The component: \<^verbatim>\<open>SignLanguageDemo\<close>\<close>

text \<open>
  A \<^verbatim>\<open>MediaRecorder\<close> the component has created. \<open>Stopped\<close> is a recorder whose
  \<^verbatim>\<open>stop()\<close> has been called and whose \<^verbatim>\<open>stop\<close> event is still to fire; \<open>Done\<close> is one
  whose \<^verbatim>\<open>onstop\<close> has run. \<open>onstop_ctx\<close> is the context value in the scope of the
  \<^verbatim>\<open>onstop\<close> closure, which is the scope \<^verbatim>\<open>startRecording\<close> ran in.
\<close>

datatype recorder_state = Recording | Stopped | Done

record recorder =
  rec_state :: recorder_state
  onstop_ctx :: ws_context

text \<open>
  The component's state: the five \<^verbatim>\<open>useState\<close> cells, and its three refs
  (\<open>stream\<close> is whether \<^verbatim>\<open>webcamRef.current?.stream\<close> is there; \<open>recorders\<close> is the store
  of the recorders created so far, \<open>mediaRecorderRef\<close> an index into it; a chunk is the
  string of its bytes).
\<close>

record demo =
  isRecording :: bool
  isProcessing :: bool
  translationResult :: "TranslationResult option"
  error :: "string option"
  permissionGranted :: bool
  stream :: bool
  mediaRecorderRef :: "nat option"
  recorders :: "recorder list"
  recordedChunks :: "string list"

definition initial :: demo where
  "initial = \<lparr>isRecording = False, isProcessing = False, translationResult = None,
     error = None, permissionGranted = False, stream = False, mediaRecorderRef = None,
     recorders = [], recordedChunks = []\<rparr>"

text \<open>
  The calls of the state setters that the asynchronous handlers make, as values; such a
  handler is the list of the calls it makes. (\<^verbatim>\<open>setIsRecording\<close> is called by
  \<^verbatim>\<open>startRecording\<close> and \<^verbatim>\<open>stopRecording\<close> only, which are written as functions on
  the state.)
\<close>

datatype update =
  SetIsProcessing bool
| SetTranslationResult "TranslationResult option"
| SetError "string option"
| SetPermissionGranted bool

fun apply_update :: "update \<Rightarrow> demo \<Rightarrow> demo" where
  "apply_update (SetIsProcessing b) s = s\<lparr>isProcessing := b\<rparr>"
| "apply_update (SetTranslationResult r) s = s\<lparr>translationResult := r\<rparr>"
| "apply_update (SetError e) s = s\<lparr>error := e\<rparr>"
| "apply_update (SetPermissionGranted b) s = s\<lparr>permissionGranted := b\<rparr>"

fun apply_updates :: "update list \<Rightarrow> demo \<Rightarrow> demo" where
  "apply_updates [] s = s"
| "apply_updates (u # us) s = apply_updates us (apply_update u s)"

text \<open>
  \<^verbatim>\<open>
  const handleMessage = (message: any) => {
    if (message.type === "translation_result") {
      setTranslationResult(message.data)
      setIsProcessing(false)
    } else if (message.type === "partial_translation") {
      setTranslationResult(message.data)
    } else if (message.type === "error") {
      setError(message.message)
      setIsProcessing(false)
    }
  }
  \<close>
\<close>

definition handleMessage_updates :: "'a message_scheme \<Rightarrow> update list" where
  "handleMessage_updates m =
     (if msg_type m = ''translation_result'' then
        [SetTranslationResult (msg_data m), SetIsProcessing False]
      else if msg_type m = ''partial_translation'' then
        [SetTranslationResult (msg_data m)]
      else if msg_type m = ''error'' then
        [SetError (msg_message m), SetIsProcessing False]
      else [])"

definition handleMessage :: "'a message_scheme \<Rightarrow> demo \<Rightarrow> demo" where
  "handleMessage m s = apply_updates (handleMessage_updates m) s"

text \<open>The messages of a list, handled one after the other in the order of their arrival.\<close>

fun deliver :: "'a message_scheme list \<Rightarrow> demo \<Rightarrow> demo" where
  "deliver [] s = s"
| "deliver (m # ms) s = deliver ms (handleMessage m s)"

text \<open>
  What the component reads from its surroundings: \<^verbatim>\<open>process.env.NEXT_PUBLIC_API_URL\<close>,
  \<^verbatim>\<open>localStorage.getItem("pinksync_token")\<close> (a template literal prints an absent value
  as \<^verbatim>\<open>undefined\<close>, a null one as \<^verbatim>\<open>null\<close>), and what \<^verbatim>\<open>FileReader\<close> makes of a blob.
\<close>

text \<open>
  \<open>LoadEnd\<close>: the read ends and \<^verbatim>\<open>onloadend\<close> runs, with the data URL in
  \<^verbatim>\<open>reader.result\<close> after a read that succeeded and with null there after one that
  failed. \<open>ReadThrows\<close>: \<^verbatim>\<open>new FileReader()\<close> or \<^verbatim>\<open>readAsDataURL\<close> throws at once, the
  one case the \<^verbatim>\<open>try\<close> of \<^verbatim>\<open>processVideo\<close> covers (a new reader and a blob give it no
  cause to).
\<close>

datatype read_outcome = ReadThrows | LoadEnd "string option"

record environment =
  api_url :: "string option"
  token :: "string option"
  reader :: "string \<Rightarrow> read_outcome"

text \<open>
  How the \<^verbatim>\<open>fetch\<close> of the fallback ends: the promise rejects, or it resolves to a
  response with its \<^verbatim>\<open>ok\<close> flag and a body that \<^verbatim>\<open>response.json()\<close> parses or not.
\<close>

datatype body = BadJson | Json "TranslationResult option"

datatype http_outcome = Rejected | Response bool body

text \<open>
  \<^verbatim>\<open>
  const processVideoHTTP = async (videoData: string) => {
    try {
      const response = await fetch(`${process.env.NEXT_PUBLIC_API_URL}/api/translation/sign-to-text`, {
        method: "POST",
        headers: { "Content-Type": "application/json",
                   Authorization: `Bearer ${localStorage.getItem("pinksync_token")}` },
        body: JSON.stringify({ video_data: videoData, source_language: "ASL", target_language: "en" }),
      })
      if (!response.ok) { throw new Error("Translation failed") }
      const result = await response.json()
      setTranslationResult(result)
    } catch (error) {
      setError("Translation service unavailable. Please try again.")
    } finally {
      setIsProcessing(false)
    }
  }
  \<close>
  The function is the request it sends and, once the request has ended, the setters it calls.
  The parameter is declared a string; \<open>processVideo\<close> passes \<^verbatim>\<open>reader.result\<close>, so it can
  be null.
\<close>

definition processVideoHTTP_request :: "environment \<Rightarrow> string option \<Rightarrow> action" where
  "processVideoHTTP_request env videoData =
     Post ((case api_url env of None \<Rightarrow> ''undefined'' | Some u \<Rightarrow> u) @ ''/api/translation/sign-to-text'')
          (''Bearer '' @ (case token env of None \<Rightarrow> ''null'' | Some t \<Rightarrow> t))
          \<lparr>video_data = videoData, source_language = ''ASL'', target_language = ''en''\<rparr>"

definition processVideoHTTP_updates :: "http_outcome \<Rightarrow> update list" where
  "processVideoHTTP_updates outcome =
     (case outcome of
        Rejected \<Rightarrow>
          [SetError (Some ''Translation service unavailable. Please try again.''), SetIsProcessing False]
      | Response ok b \<Rightarrow>
          (if \<not> ok then
             [SetError (Some ''Translation service unavailable. Please try again.''), SetIsProcessing False]
           else (case b of
              BadJson \<Rightarrow>
                [SetError (Some ''Translation service unavailable. Please try again.''), SetIsProcessing False]
            | Json result \<Rightarrow> [SetTranslationResult result, SetIsProcessing False])))"

definition processVideoHTTP :: "environment \<Rightarrow> string option \<Rightarrow> http_outcome \<Rightarrow> demo \<Rightarrow> action \<times> demo" where
  "processVideoHTTP env videoData outcome s =
     (processVideoHTTP_request env videoData, apply_updates (processVideoHTTP_updates outcome) s)"

text \<open>
  \<^verbatim>\<open>
  const processVideo = async (videoBlob: Blob) => {
    try {
      const reader = new FileReader()
      reader.onloadend = () => {
        const base64data = reader.result as string
        if (isConnected) {
          sendMessage("translation_request", { video_data: base64data, source_language: "ASL", target_language: "en" })
        } else {
          processVideoHTTP(base64data)
        }
      }
      reader.readAsDataURL(videoBlob)
    } catch (error) {
      setError("Failed to process video")
      setIsProcessing(false)
    }
  }
  \<close>
  \<open>ctx\<close> is the context value in the function's scope: \<^verbatim>\<open>isConnected\<close> and
  \<^verbatim>\<open>sendMessage\<close> are two properties of the one value \<^verbatim>\<open>useWebSocket()\<close> returned.
  The result is the setters called at once and what is sent; the setters of the fallback
  are called when its request ends (\<open>processVideoHTTP_updates\<close>). The \<^verbatim>\<open>try\<close> covers the
  two calls made at once and nothing of \<^verbatim>\<open>onloadend\<close>, which runs later: after a read that
  failed it finds null in \<^verbatim>\<open>reader.result\<close> and sends that.
\<close>

definition processVideo :: "ws_context \<Rightarrow> environment \<Rightarrow> string \<Rightarrow> update list \<times> action list" where
  "processVideo ctx env videoBlob =
     (case reader env videoBlob of
        ReadThrows \<Rightarrow> ([SetError (Some ''Failed to process video''), SetIsProcessing False], [])
      | LoadEnd base64data \<Rightarrow>
          (if isConnected ctx then
             ([], sendMessage ctx ''translation_request''
                    \<lparr>video_data = base64data, source_language = ''ASL'', target_language = ''en''\<rparr>)
           else ([], [processVideoHTTP_request env base64data])))"

text \<open>
  \<^verbatim>\<open>
  const startRecording = useCallback(() => {
    if (!webcamRef.current?.stream) return
    setError(null)
    setTranslationResult(null)
    recordedChunks.current = []
    const mediaRecorder = new MediaRecorder(webcamRef.current.stream, { mimeType: "video/webm" })
    mediaRecorderRef.current = mediaRecorder
    mediaRecorder.ondataavailable = (event) => {
      if (event.data.size > 0) { recordedChunks.current.push(event.data) }
    }
    mediaRecorder.onstop = () => {
      const blob = new Blob(recordedChunks.current, { type: "video/webm" })
      processVideo(blob)
    }
    mediaRecorder.start()
    setIsRecording(true)
  }, [])
  \<close>
  \<open>ctx\<close> is the context value of the scope the function was created in; the
  \<^verbatim>\<open>onstop\<close> closure calls the \<^verbatim>\<open>processVideo\<close> of that scope. The constructor and
  \<^verbatim>\<open>start()\<close> are taken to succeed. The function reads neither \<^verbatim>\<open>isRecording\<close> nor
  \<^verbatim>\<open>isProcessing\<close>, and it leaves the recorders that exist as they are.
\<close>

definition startRecording :: "ws_context \<Rightarrow> demo \<Rightarrow> demo" where
  "startRecording ctx s =
     (if \<not> stream s then s
      else s\<lparr>error := None, translationResult := None, recordedChunks := [],
             recorders := recorders s @ [\<lparr>rec_state = Recording, onstop_ctx = ctx\<rparr>],
             mediaRecorderRef := Some (length (recorders s)),
             isRecording := True\<rparr>)"

definition ondataavailable :: "string \<Rightarrow> demo \<Rightarrow> demo" where
  "ondataavailable chunk s =
     (if length chunk > 0 then s\<lparr>recordedChunks := recordedChunks s @ [chunk]\<rparr> else s)"

text \<open>
  \<^verbatim>\<open>
  const stopRecording = useCallback(() => {
    if (mediaRecorderRef.current && isRecording) {
      mediaRecorderRef.current.stop()
      setIsRecording(false)
      setIsProcessing(true)
    }
  }, [isRecording])
  \<close>
  \<^verbatim>\<open>stop()\<close> on a recorder that is not recording throws \<^verbatim>\<open>InvalidStateError\<close>, before
  any setter is called. (\<open>startRecording\<close> is the only writer of the ref, so the index
  is one of the store; the model puts an index outside it with the recorders that are not
  recording.)
\<close>

datatype fault = InvalidStateError

definition stopRecording :: "demo \<Rightarrow> fault + demo" where
  "stopRecording s =
     (case mediaRecorderRef s of
        None \<Rightarrow> Inr s
      | Some i \<Rightarrow>
          (if isRecording s then
             (if i < length (recorders s) \<and> rec_state (recorders s ! i) = Recording then
                Inr (s\<lparr>recorders := (recorders s)[i := (recorders s ! i)\<lparr>rec_state := Stopped\<rparr>],
                       isRecording := False, isProcessing := True\<rparr>)
              else Inl InvalidStateError)
           else Inr s))"

subsection \<open>The mounted component and its events\<close>

text \<open>
  The component function runs at every render, and each run has a scope of its own.
  \<open>provided\<close> is the context value of the latest render. \<^verbatim>\<open>startRecording\<close> is wrapped in
  \<^verbatim>\<open>useCallback(..., [])\<close>: with the empty dependency list React hands back the function
  object of the first render at every later render, so the \<^verbatim>\<open>processVideo\<close>,
  \<^verbatim>\<open>isConnected\<close> and \<^verbatim>\<open>sendMessage\<close> it reaches are those of the first render's
  scope; \<open>captured\<close> is the context value of that scope. (\<^verbatim>\<open>stopRecording\<close> lists
  \<^verbatim>\<open>[isRecording]\<close> and so sees the current flag; the refs are shared by all renders.)
  \<open>sent\<close> is the log of what has left the client and \<open>inflight\<close> the number of
  fallback requests that have not ended yet.
\<close>

record component =
  st :: demo
  provided :: ws_context
  captured :: ws_context
  sent :: "action list"
  inflight :: nat

definition mount :: "ws_context \<Rightarrow> component" where
  "mount ctx = \<lparr>st = initial, provided = ctx, captured = ctx, sent = [], inflight = 0\<rparr>"

text \<open>
  The events the component has a handler for. There is no timer among them: the source sets
  none.
  \<^item> \<open>Render\<close>: the component renders with a new context value.
  \<^item> \<open>GetUserMedia\<close>: the promise of the effect settles,
    \<^verbatim>\<open>getUserMedia({ video: true }).then(() => setPermissionGranted(true))
      .catch(() => setError("Camera permission required for sign language recognition"))\<close>.
  \<^item> \<open>WebcamStream\<close>: the stream of the \<^verbatim>\<open>Webcam\<close> element appears or goes.
  \<^item> \<open>ClickStart\<close>, \<open>ClickStop\<close>: a click where the button is. The buttons exist only in
    the render with \<^verbatim>\<open>permissionGranted\<close> (the other one returns the card that asks for the
    camera), and there
    \<^verbatim>\<open>
    {!isRecording ? (
      <Button onClick={startRecording} size="lg" className="pinksync-glow" disabled={isProcessing}>
    ) : (
      <Button onClick={stopRecording} size="lg" variant="destructive">
    )}
    \<close>
    An exception that \<^verbatim>\<open>stopRecording\<close> throws leaves the handler before any setter
    is called.
  \<^item> \<open>DataAvailable\<close>, \<open>StopEvent\<close>: the events of a recorder, handled by the closures
    \<^verbatim>\<open>startRecording\<close> gave it; the stop event fires once, after \<^verbatim>\<open>stop()\<close>.
  \<^item> \<open>HttpSettled\<close>: a fallback request ends.
  \<^item> \<open>Incoming\<close>: the provider calls the subscribed \<^verbatim>\<open>handleMessage\<close> with a message.
\<close>

datatype 'a event =
  Render ws_context
| GetUserMedia bool
| WebcamStream bool
| ClickStart
| ClickStop
| DataAvailable nat string
| StopEvent nat
| HttpSettled http_outcome
| Incoming "'a message_scheme"

fun is_Post :: "action \<Rightarrow> bool" where
  "is_Post (Post _ _ _) = True"
| "is_Post (Emit _ _ _) = False"

text \<open>
  What the handler of an event does: the component after it, or the exception that leaves
  the handler uncaught.
\<close>

fun handle :: "environment \<Rightarrow> 'a event \<Rightarrow> component \<Rightarrow> fault + component" where
  "handle env (Render ctx) c = Inr (c\<lparr>provided := ctx\<rparr>)"
| "handle env (GetUserMedia granted) c =
     Inr (c\<lparr>st := apply_updates
        (if granted then [SetPermissionGranted True]
         else [SetError (Some ''Camera permission required for sign language recognition'')]) (st c)\<rparr>)"
| "handle env (WebcamStream b) c = Inr (c\<lparr>st := (st c)\<lparr>stream := b\<rparr>\<rparr>)"
| "handle env ClickStart c =
     (if permissionGranted (st c) \<and> \<not> isRecording (st c) \<and> \<not> isProcessing (st c)
      then Inr (c\<lparr>st := startRecording (captured c) (st c)\<rparr>) else Inr c)"
| "handle env ClickStop c =
     (if permissionGranted (st c) \<and> isRecording (st c)
      then (case stopRecording (st c) of Inr s' \<Rightarrow> Inr (c\<lparr>st := s'\<rparr>) | Inl f \<Rightarrow> Inl f)
      else Inr c)"
| "handle env (DataAvailable i chunk) c =
     (if i < length (recorders (st c)) \<and> rec_state (recorders (st c) ! i) \<noteq> Done
      then Inr (c\<lparr>st := ondataavailable chunk (st c)\<rparr>) else Inr c)"
| "handle env (StopEvent i) c =
     (if i < length (recorders (st c)) \<and> rec_state (recorders (st c) ! i) = Stopped then
        (case processVideo (onstop_ctx (recorders (st c) ! i)) env (concat (recordedChunks (st c))) of
           (us, as) \<Rightarrow>
             Inr (c\<lparr>st := apply_updates us
                  ((st c)\<lparr>recorders := (recorders (st c))[i := (recorders (st c) ! i)\<lparr>rec_state := Done\<rparr>]\<rparr>),
               sent := sent c @ as,
               inflight := inflight c + length (filter is_Post as)\<rparr>))
      else Inr c)"
| "handle env (HttpSettled outcome) c =
     (if inflight c > 0
      then Inr (c\<lparr>st := apply_updates (processVideoHTTP_updates outcome) (st c), inflight := inflight c - 1\<rparr>)
      else Inr c)"
| "handle env (Incoming m) c = Inr (c\<lparr>st := handleMessage m (st c)\<rparr>)"

text \<open>The component after an event; an uncaught exception leaves it as it was.\<close>

definition step :: "environment \<Rightarrow> 'a event \<Rightarrow> component \<Rightarrow> component" where
  "step env e c = (case handle env e c of Inr c' \<Rightarrow> c' | Inl f \<Rightarrow> c)"

fun run :: "environment \<Rightarrow> 'a event list \<Rightarrow> component \<Rightarrow> component" where
  "run env [] c = c"
| "run env (e # es) c = run env es (step env e c)"

subsection \<open>Measures on the state\<close>

text \<open>The number of recorders that are recording.\<close>

definition recording :: "demo \<Rightarrow> nat" where
  "recording s = length (filter (\<lambda>r. rec_state r = Recording) (recorders s))"

text \<open>The flag \<^verbatim>\<open>isRecording\<close> counts the recorders that are recording.\<close>

definition one_recorder :: "demo \<Rightarrow> bool" where
  "one_recorder s = (recording s = (if isRecording s then 1 else 0))"

text \<open>
  The events that can end the wait for a result or set the error are: a final result or an
  error message, the end of a fallback request, a recorder's stop event (its
  \<^verbatim>\<open>processVideo\<close> may fail) and a permission denial. \<open>quiet\<close> are all the others.
\<close>

fun quiet :: "'a event \<Rightarrow> bool" where
  "quiet (Incoming m) = (msg_type m \<noteq> ''translation_result'' \<and> msg_type m \<noteq> ''error'')"
| "quiet (HttpSettled outcome) = False"
| "quiet (StopEvent i) = False"
| "quiet (GetUserMedia granted) = granted"
| "quiet _ = True"

section \<open>Concrete states and inputs\<close>

text \<open>The states, messages and surroundings at which the theorems below are evaluated.\<close>

definition awaiting :: demo where
  "awaiting = initial\<lparr>permissionGranted := True, stream := True, isProcessing := True\<rparr>"

definition hello1 :: message where
  "hello1 = \<lparr>msg_type = ''partial_translation'',
     msg_data = Some \<lparr>text' = ''hello'', confidence = 0.4, features_detected = False\<rparr>,
     msg_message = None\<rparr>"

definition hello2 :: message where
  "hello2 = \<lparr>msg_type = ''partial_translation'',
     msg_data = Some \<lparr>text' = ''hello world'', confidence = 0.7, features_detected = False\<rparr>,
     msg_message = None\<rparr>"

definition hello3 :: message where
  "hello3 = \<lparr>msg_type = ''translation_result'',
     msg_data = Some \<lparr>text' = ''hello world'', confidence = 0.95, features_detected = True\<rparr>,
     msg_message = None\<rparr>"

definition foreign_final :: tagged_message where
  "foreign_final = \<lparr>msg_type = ''translation_result'',
     msg_data = Some \<lparr>text' = ''stale'', confidence = 0.5, features_detected = True\<rparr>,
     msg_message = None, session_id = 2\<rparr>"

definition env0 :: environment where
  "env0 = \<lparr>api_url = Some ''https://api.pinksync.io'', token = Some ''t0'',
     reader = (\<lambda>blob. LoadEnd (Some (if blob = ''abc'' then ''data:video/webm;base64,YWJj''
                                     else ''data:video/webm;base64,'')))\<rparr>"


definition ctx_down :: ws_context where
  "ctx_down = \<lparr>socket = None, isConnected = False\<rparr>"

definition ctx_up :: ws_context where
  "ctx_up = \<lparr>socket = Some 1, isConnected = True\<rparr>"

definition error1 :: message where
  "error1 = \<lparr>msg_type = ''error'', msg_data = None, msg_message = Some ''model unavailable''\<rparr>"

text \<open>One session, as the events of the component: start, one chunk, stop, the stop event.\<close>

definition session_events :: "message event list" where
  "session_events = [ClickStart, DataAvailable 0 ''abc'', ClickStop, StopEvent 0]"

text \<open>
  The component mounted while the socket was still connecting, with the camera granted and
  the connection established since: the context value now says connected.
\<close>

definition ready_late :: component where
  "ready_late = run env0 [GetUserMedia True, WebcamStream True,
      Render \<lparr>socket = Some 1, isConnected = False\<rparr>, Render ctx_up :: message event] (mount ctx_down)"

text \<open>The component mounted with the connection established, and the same with one session run.\<close>

definition ready_up :: component where
  "ready_up = run env0 [GetUserMedia True, WebcamStream True :: message event] (mount ctx_up)"

definition waiting_up :: component where
  "waiting_up = run env0 session_events ready_up"

text \<open>
  The component mounted with the connection established, and the connection lost since:
  the provider's \<^verbatim>\<open>disconnect\<close> handler has run and the component has rendered again.
\<close>

definition after_loss :: component where
  "after_loss = run env0 [GetUserMedia True, WebcamStream True,
      Render (on_disconnect ctx_up) :: message event] (mount ctx_up)"

text \<open>
  The component of \<open>ready_late\<close> after one session whose request, sent by the fallback, has
  not ended yet, and an error message that arrived on the socket meanwhile.
\<close>

definition overlap :: component where
  "overlap = step env0 (Incoming error1) (run env0 session_events ready_late)"

text \<open>The state while recording, and the state after \<open>stopRecording\<close> in it.\<close>

definition recording1 :: demo where
  "recording1 = startRecording ctx_up (initial\<lparr>permissionGranted := True, stream := True\<rparr>)"

definition stopped1 :: demo where
  "stopped1 = recording1\<lparr>recorders := [\<lparr>rec_state = Stopped, onstop_ctx = ctx_up\<rparr>],
      isRecording := False, isProcessing := True\<rparr>"

section \<open>Properties of the result handler\<close>

lemma handleMessage_final:
  "msg_type m = ''translation_result'' \<Longrightarrow>
   handleMessage m s = s\<lparr>translationResult := msg_data m, isProcessing := False\<rparr>"
  by (simp add: handleMessage_def handleMessage_updates_def)

lemma handleMessage_partial:
  "msg_type m = ''partial_translation'' \<Longrightarrow>
   handleMessage m s = s\<lparr>translationResult := msg_data m\<rparr>"
  by (simp add: handleMessage_def handleMessage_updates_def)


lemma handleMessage_other:
  "msg_type m \<noteq> ''translation_result'' \<Longrightarrow> msg_type m \<noteq> ''partial_translation'' \<Longrightarrow>
   msg_type m \<noteq> ''error'' \<Longrightarrow> handleMessage m s = s"
  by (simp add: handleMessage_def handleMessage_updates_def)

lemma deliver_append: "deliver (ms @ ns) s = deliver ns (deliver ms s)"
  by (induction ms arbitrary: s) simp_all

lemma deliver_partials_flag:
  "\<forall>p \<in> set ps. msg_type p = ''partial_translation'' \<Longrightarrow>
   isProcessing (deliver ps s) = isProcessing s"
  by (induction ps arbitrary: s) (simp_all add: handleMessage_partial)


section \<open>Properties of the component's events\<close>

text \<open>The component after each event, clause by clause.\<close>

lemma step_simps [simp]:
  "step env (Render ctx) c = c\<lparr>provided := ctx\<rparr>"
  "step env (GetUserMedia granted) c =
     c\<lparr>st := apply_updates
        (if granted then [SetPermissionGranted True]
         else [SetError (Some ''Camera permission required for sign language recognition'')]) (st c)\<rparr>"
  "step env (WebcamStream b) c = c\<lparr>st := (st c)\<lparr>stream := b\<rparr>\<rparr>"
  "step env ClickStart c =
     (if permissionGranted (st c) \<and> \<not> isRecording (st c) \<and> \<not> isProcessing (st c)
      then c\<lparr>st := startRecording (captured c) (st c)\<rparr> else c)"
  "step env ClickStop c =
     (if permissionGranted (st c) \<and> isRecording (st c)
      then (case stopRecording (st c) of Inr s' \<Rightarrow> c\<lparr>st := s'\<rparr> | Inl f \<Rightarrow> c) else c)"
  "step env (DataAvailable i chunk) c =
     (if i < length (recorders (st c)) \<and> rec_state (recorders (st c) ! i) \<noteq> Done
      then c\<lparr>st := ondataavailable chunk (st c)\<rparr> else c)"
  "step env (StopEvent i) c =
     (if i < length (recorders (st c)) \<and> rec_state (recorders (st c) ! i) = Stopped then
        (case processVideo (onstop_ctx (recorders (st c) ! i)) env (concat (recordedChunks (st c))) of
           (us, as) \<Rightarrow>
             c\<lparr>st := apply_updates us
                  ((st c)\<lparr>recorders := (recorders (st c))[i := (recorders (st c) ! i)\<lparr>rec_state := Done\<rparr>]\<rparr>),
               sent := sent c @ as,
               inflight := inflight c + length (filter is_Post as)\<rparr>)
      else c)"
  "step env (HttpSettled outcome) c =
     (if inflight c > 0
      then c\<lparr>st := apply_updates (processVideoHTTP_updates outcome) (st c), inflight := inflight c - 1\<rparr>
      else c)"
  "step env (Incoming m) c = c\<lparr>st := handleMessage m (st c)\<rparr>"
  by (simp_all add: step_def split: sum.splits prod.splits)

lemma apply_updates_frame:
  "isRecording (apply_updates us s) = isRecording s
   \<and> recorders (apply_updates us s) = recorders s
   \<and> mediaRecorderRef (apply_updates us s) = mediaRecorderRef s"
proof (induction us arbitrary: s)
  case Nil
  show ?case by simp
next
  case (Cons u us)
  show ?case by (cases u) (simp_all add: Cons.IH)
qed

lemma handleMessage_frame:
  "isRecording (handleMessage m s) = isRecording s \<and> recorders (handleMessage m s) = recorders s"
  by (simp add: handleMessage_def apply_updates_frame)

text \<open>Replacing one element of a list: what it does to the number of elements with a property.\<close>

lemma filter_length_update_drop:
  assumes "i < length xs" and "P (xs ! i)" and "\<not> P y"
  shows "Suc (length (filter P (xs[i := y]))) = length (filter P xs)"
proof -
  have "xs = take i xs @ xs ! i # drop (Suc i) xs"
    using assms(1) by (rule id_take_nth_drop)
  then have a: "length (filter P xs) = length (filter P (take i xs)) + 1 + length (filter P (drop (Suc i) xs))"
    using assms(2) by (metis (no_types, lifting) add.assoc filter.simps(2) filter_append length_Cons length_append plus_1_eq_Suc)
  have "xs[i := y] = take i xs @ y # drop (Suc i) xs"
    using assms(1) by (rule upd_conv_take_nth_drop)
  then have "length (filter P (xs[i := y])) = length (filter P (take i xs)) + length (filter P (drop (Suc i) xs))"
    using assms(3) by simp
  with a show ?thesis by simp
qed

lemma filter_length_update_same:
  assumes "i < length xs" and "\<not> P (xs ! i)" and "\<not> P y"
  shows "length (filter P (xs[i := y])) = length (filter P xs)"
proof -
  have "xs = take i xs @ xs ! i # drop (Suc i) xs"
    using assms(1) by (rule id_take_nth_drop)
  then have a: "length (filter P xs) = length (filter P (take i xs)) + length (filter P (drop (Suc i) xs))"
    using assms(2) by (metis filter.simps(2) filter_append length_append)
  have "xs[i := y] = take i xs @ y # drop (Suc i) xs"
    using assms(1) by (rule upd_conv_take_nth_drop)
  then have "length (filter P (xs[i := y])) = length (filter P (take i xs)) + length (filter P (drop (Suc i) xs))"
    using assms(3) by simp
  with a show ?thesis by simp
qed

lemma recording_done:
  "i < length (recorders s) \<Longrightarrow> rec_state (recorders s ! i) = Stopped \<Longrightarrow>
   recording (s\<lparr>recorders := (recorders s)[i := (recorders s ! i)\<lparr>rec_state := Done\<rparr>]\<rparr>) = recording s"
  unfolding recording_def by (simp add: filter_length_update_same)

lemma recording_stopped:
  "i < length (recorders s) \<Longrightarrow> rec_state (recorders s ! i) = Recording \<Longrightarrow>
   Suc (recording (s\<lparr>recorders := (recorders s)[i := (recorders s ! i)\<lparr>rec_state := Stopped\<rparr>],
         isRecording := False, isProcessing := True\<rparr>)) = recording s"
  unfolding recording_def
  using filter_length_update_drop [of i "recorders s" "\<lambda>r. rec_state r = Recording"
      "(recorders s ! i)\<lparr>rec_state := Stopped\<rparr>"]
  by simp

lemma recording_started:
  "stream s \<Longrightarrow> recording (startRecording ctx s) = Suc (recording s)"
  by (simp add: recording_def startRecording_def)

lemma recording_apply_updates: "recording (apply_updates us s) = recording s"
  by (simp add: recording_def apply_updates_frame)

lemma stopRecording_one_recorder:
  assumes "one_recorder s" and "stopRecording s = Inr s'"
  shows "one_recorder s'"
proof (cases "mediaRecorderRef s")
  case None
  with assms show ?thesis by (simp add: stopRecording_def)
next
  case (Some i)
  show ?thesis
  proof (cases "isRecording s")
    case False
    with Some assms show ?thesis by (simp add: stopRecording_def)
  next
    case True
    with Some assms(2) have i: "i < length (recorders s)" "rec_state (recorders s ! i) = Recording"
      and s': "s' = s\<lparr>recorders := (recorders s)[i := (recorders s ! i)\<lparr>rec_state := Stopped\<rparr>],
                      isRecording := False, isProcessing := True\<rparr>"
      by (auto simp: stopRecording_def split: if_splits)
    from recording_stopped [OF i] s' have "Suc (recording s') = recording s" by simp
    moreover from assms(1) True have "recording s = 1" by (simp add: one_recorder_def)
    ultimately have "recording s' = 0" by simp
    moreover have "\<not> isRecording s'" by (simp add: s')
    ultimately show ?thesis by (simp add: one_recorder_def)
  qed
qed

lemma one_recorder_frame:
  "recorders s' = recorders s \<Longrightarrow> isRecording s' = isRecording s \<Longrightarrow>
   one_recorder s' = one_recorder s"
  by (simp add: one_recorder_def recording_def)

lemma step_one_recorder:
  assumes "one_recorder (st c)"
  shows "one_recorder (st (step env e c))"
proof (cases e)
  case ClickStart
  show ?thesis
  proof (cases "stream (st c)")
    case True
    with ClickStart assms show ?thesis
      by (simp add: one_recorder_def recording_started) (simp add: startRecording_def)
  next
    case False
    with ClickStart assms show ?thesis by (simp add: startRecording_def)
  qed
next
  case ClickStop
  show ?thesis
  proof (cases "stopRecording (st c)")
    case (Inl f)
    with ClickStop assms show ?thesis by simp
  next
    case (Inr s')
    with ClickStop assms stopRecording_one_recorder [OF assms Inr] show ?thesis by simp
  qed
next
  case (StopEvent i)
  with assms show ?thesis
    by (simp add: one_recorder_def recording_apply_updates recording_done apply_updates_frame
        split: prod.splits)
next
  case (DataAvailable i chunk)
  have "one_recorder (ondataavailable chunk (st c)) = one_recorder (st c)"
    by (rule one_recorder_frame) (simp_all add: ondataavailable_def)
  with DataAvailable assms show ?thesis by simp
next
  case (Render ctx)
  with assms show ?thesis by simp
next
  case (GetUserMedia g)
  have "one_recorder (st (step env (GetUserMedia g) c)) = one_recorder (st c)"
    by (rule one_recorder_frame) (simp_all add: apply_updates_frame)
  with GetUserMedia assms show ?thesis by simp
next
  case (WebcamStream b)
  have "one_recorder (st (step env (WebcamStream b) c)) = one_recorder (st c)"
    by (rule one_recorder_frame) simp_all
  with WebcamStream assms show ?thesis by simp
next
  case (HttpSettled outcome)
  have "one_recorder (st (step env (HttpSettled outcome) c)) = one_recorder (st c)"
    by (rule one_recorder_frame) (simp_all add: apply_updates_frame)
  with HttpSettled assms show ?thesis by simp
next
  case (Incoming m)
  have "one_recorder (st (step env (Incoming m) c)) = one_recorder (st c)"
    by (rule one_recorder_frame) (simp_all add: handleMessage_frame)
  with Incoming assms show ?thesis by simp
qed

lemma run_one_recorder:
  "one_recorder (st c) \<Longrightarrow> one_recorder (st (run env es c))"
  by (induction es arbitrary: c) (simp_all add: step_one_recorder)

lemma step_quiet:
  assumes "quiet e" and "isProcessing (st c)"
  shows "isProcessing (st (step env e c)) \<and> error (st (step env e c)) = error (st c)"
proof (cases e)
  case ClickStop
  with assms show ?thesis
    by (auto simp: stopRecording_def split: option.splits sum.splits if_splits)
next
  case (DataAvailable i chunk)
  with assms show ?thesis by (simp add: ondataavailable_def)
next
  case (Incoming m)
  with assms show ?thesis
    by (simp add: handleMessage_def handleMessage_updates_def)
qed (use assms in simp_all)

lemma run_quiet:
  "\<forall>e \<in> set es. quiet e \<Longrightarrow> isProcessing (st c) \<Longrightarrow>
   isProcessing (st (run env es c)) \<and> error (st (run env es c)) = error (st c)"
proof (induction es arbitrary: c)
  case Nil
  then show ?case by simp
next
  case (Cons e es)
  from Cons.prems have q: "quiet e" and p: "isProcessing (st c)" by simp_all
  from step_quiet [OF q p, of env]
  have 1: "isProcessing (st (step env e c))" and 2: "error (st (step env e c)) = error (st c)"
    by simp_all
  from Cons.IH [of "step env e c"] Cons.prems 1 2 show ?case by simp
qed

text \<open>The concrete states, evaluated.\<close>

lemma waiting_up_eq:
  "waiting_up = \<lparr>st = \<lparr>isRecording = False, isProcessing = True, translationResult = None,
          error = None, permissionGranted = True, stream = True, mediaRecorderRef = Some 0,
          recorders = [\<lparr>rec_state = Done, onstop_ctx = ctx_up\<rparr>], recordedChunks = [''abc'']\<rparr>,
      provided = ctx_up, captured = ctx_up,
      sent = [Emit 1 ''translation_request''
                \<lparr>video_data = Some ''data:video/webm;base64,YWJj'', source_language = ''ASL'',
                   target_language = ''en''\<rparr>],
      inflight = 0\<rparr>"
  by (simp add: waiting_up_def ready_up_def session_events_def mount_def initial_def
      startRecording_def ondataavailable_def stopRecording_def processVideo_def sendMessage_def
      env0_def ctx_up_def)

lemma recording1_eq:
  "recording1 = \<lparr>isRecording = True, isProcessing = False, translationResult = None,
          error = None, permissionGranted = True, stream = True, mediaRecorderRef = Some 0,
          recorders = [\<lparr>rec_state = Recording, onstop_ctx = ctx_up\<rparr>], recordedChunks = []\<rparr>"
  by (simp add: recording1_def initial_def startRecording_def)

lemma ready_late_eq:
  "ready_late = \<lparr>st = initial\<lparr>permissionGranted := True, stream := True\<rparr>,
     provided = ctx_up, captured = ctx_down, sent = [], inflight = 0\<rparr>"
  by (simp add: ready_late_def mount_def)

lemma ready_up_eq:
  "ready_up = \<lparr>st = initial\<lparr>permissionGranted := True, stream := True\<rparr>,
     provided = ctx_up, captured = ctx_up, sent = [], inflight = 0\<rparr>"
  by (simp add: ready_up_def mount_def)

text \<open>
  Which context value a session's \<open>processVideo\<close> sees: no event changes \<open>captured\<close>, and
  every recorder is made with it.
\<close>

lemma processVideo_choice:
  "reader env videoBlob = LoadEnd v \<Longrightarrow>
   processVideo ctx env videoBlob =
     ([], if isConnected ctx
          then sendMessage ctx ''translation_request''
                 \<lparr>video_data = v, source_language = ''ASL'', target_language = ''en''\<rparr>
          else [processVideoHTTP_request env v])"
  by (simp add: processVideo_def)

lemma step_captured: "captured (step env e c) = captured c"
  by (cases e) (simp_all split: sum.splits prod.splits)

lemma map_onstop_update:
  "i < length xs \<Longrightarrow> map onstop_ctx (xs[i := (xs ! i)\<lparr>rec_state := v\<rparr>]) = map onstop_ctx xs"
  by (simp add: map_update list_update_same_conv)

lemma stopRecording_onstop:
  "stopRecording s = Inr s' \<Longrightarrow> map onstop_ctx (recorders s') = map onstop_ctx (recorders s)"
  by (auto simp: stopRecording_def map_onstop_update split: option.splits if_splits)

lemma step_onstop:
  assumes "set (map onstop_ctx (recorders (st c))) \<subseteq> {captured c}"
  shows "set (map onstop_ctx (recorders (st (step env e c)))) \<subseteq> {captured c}"
proof (cases e)
  case ClickStart
  with assms show ?thesis by (auto simp: startRecording_def)
next
  case ClickStop
  show ?thesis
  proof (cases "stopRecording (st c)")
    case (Inl f)
    with ClickStop assms show ?thesis by simp
  next
    case (Inr s')
    from stopRecording_onstop [OF Inr]
    have "set (map onstop_ctx (recorders s')) = set (map onstop_ctx (recorders (st c)))"
      by (simp only:)
    with ClickStop Inr assms show ?thesis by (simp del: set_map)
  qed
next
  case (StopEvent i)
  with assms show ?thesis
    by (simp add: apply_updates_frame map_onstop_update split: prod.splits del: set_map)
next
  case (DataAvailable i chunk)
  with assms show ?thesis by (simp add: ondataavailable_def del: set_map)
next
  case (Render ctx)
  with assms show ?thesis by simp
next
  case (GetUserMedia g)
  with assms show ?thesis by (simp add: apply_updates_frame del: set_map)
next
  case (WebcamStream b)
  with assms show ?thesis by simp
next
  case (HttpSettled outcome)
  with assms show ?thesis by (simp add: apply_updates_frame del: set_map)
next
  case (Incoming m)
  with assms show ?thesis by (simp add: handleMessage_frame del: set_map)
qed

lemma run_onstop:
  "set (map onstop_ctx (recorders (st c))) \<subseteq> {captured c} \<Longrightarrow>
   set (map onstop_ctx (recorders (st (run env es c)))) \<subseteq> {captured c}"
proof (induction es arbitrary: c)
  case Nil
  then show ?case by simp
next
  case (Cons e es)
  from step_onstop [OF Cons.prems, of env e]
  have "set (map onstop_ctx (recorders (st (step env e c)))) \<subseteq> {captured (step env e c)}"
    by (simp only: step_captured)
  from Cons.IH [OF this] show ?case by (simp add: step_captured)
qed

lemma recorders_onstop_mount:
  "r \<in> set (recorders (st (run env es (mount ctx)))) \<Longrightarrow> onstop_ctx r = ctx"
proof -
  assume r: "r \<in> set (recorders (st (run env es (mount ctx))))"
  have "set (map onstop_ctx (recorders (st (mount ctx)))) \<subseteq> {captured (mount ctx)}"
    by (simp add: mount_def initial_def)
  from run_onstop [OF this, of env es] r show ?thesis
    by (auto simp: mount_def)
qed

text \<open>
  So a component that mounted while the connection was down never uses the streaming
  channel, whatever the connection does afterwards.
\<close>

lemma processVideo_down:
  "\<not> isConnected ctx \<Longrightarrow> \<forall>a \<in> set (snd (processVideo ctx env videoBlob)). is_Post a"
  by (simp add: processVideo_def processVideoHTTP_request_def split: read_outcome.splits)

lemma step_sent_posts:
  assumes down: "\<not> isConnected (captured c)"
    and onstop: "set (map onstop_ctx (recorders (st c))) \<subseteq> {captured c}"
    and posts: "\<forall>a \<in> set (sent c). is_Post a"
  shows "\<forall>a \<in> set (sent (step env e c)). is_Post a"
proof (cases e)
  case (StopEvent i)
  show ?thesis
  proof (cases "i < length (recorders (st c)) \<and> rec_state (recorders (st c) ! i) = Stopped")
    case False
    with StopEvent posts show ?thesis by auto
  next
    case True
    then have "recorders (st c) ! i \<in> set (recorders (st c))" by simp
    with onstop have "onstop_ctx (recorders (st c) ! i) = captured c" by auto
    with down have "\<forall>a \<in> set (snd (processVideo (onstop_ctx (recorders (st c) ! i)) env
        (concat (recordedChunks (st c))))). is_Post a"
      by (simp add: processVideo_down)
    with StopEvent True posts show ?thesis
      by (auto split: prod.splits)
  qed
next
  case ClickStop
  with posts show ?thesis by (simp split: sum.splits)
qed (use posts in simp_all)

lemma run_sent_posts:
  "\<not> isConnected (captured c) \<Longrightarrow> set (map onstop_ctx (recorders (st c))) \<subseteq> {captured c} \<Longrightarrow>
   \<forall>a \<in> set (sent c). is_Post a \<Longrightarrow> \<forall>a \<in> set (sent (run env es c)). is_Post a"
proof (induction es arbitrary: c)
  case Nil
  then show ?case by simp
next
  case (Cons e es)
  have 1: "\<not> isConnected (captured (step env e c))"
    using Cons.prems(1) by (simp add: step_captured)
  have 2: "set (map onstop_ctx (recorders (st (step env e c)))) \<subseteq> {captured (step env e c)}"
    using step_onstop [OF Cons.prems(2), of env e] by (simp only: step_captured)
  have 3: "\<forall>a \<in> set (sent (step env e c)). is_Post a"
    using Cons.prems by (rule step_sent_posts)
  from Cons.IH [OF 1 2 3] show ?case by simp
qed

lemma sent_mount_down:
  "\<not> isConnected ctx \<Longrightarrow> a \<in> set (sent (run env es (mount ctx))) \<Longrightarrow> is_Post a"
  using run_sent_posts [of "mount ctx" env es]
  by (simp add: mount_def initial_def)

text \<open>A context value the provider renders says connected only with a socket in it.\<close>

lemma provider_step_socket:
  "(isConnected ctx \<longrightarrow> socket ctx \<noteq> None) \<Longrightarrow>
   isConnected (provider_step e ctx) \<longrightarrow> socket (provider_step e ctx) \<noteq> None"
  by (cases e) (auto simp: on_connect_def on_disconnect_def cleanup_def split: option.splits)

lemma provider_run_socket:
  "(isConnected ctx \<longrightarrow> socket ctx \<noteq> None) \<Longrightarrow>
   isConnected (provider_run evs ctx) \<longrightarrow> socket (provider_run evs ctx) \<noteq> None"
proof (induction evs arbitrary: ctx)
  case Nil
  then show ?case by simp
next
  case (Cons e evs)
  from provider_step_socket [OF Cons.prems, of e]
  show ?case by (simp add: Cons.IH)
qed

lemma overlap_eq:
  "overlap = \<lparr>st = \<lparr>isRecording = False, isProcessing = False, translationResult = None,
          error = Some ''model unavailable'', permissionGranted = True, stream = True,
          mediaRecorderRef = Some 0,
          recorders = [\<lparr>rec_state = Done, onstop_ctx = ctx_down\<rparr>], recordedChunks = [''abc'']\<rparr>,
      provided = ctx_up, captured = ctx_down,
      sent = [Post ''https://api.pinksync.io/api/translation/sign-to-text'' ''Bearer t0''
                \<lparr>video_data = Some ''data:video/webm;base64,YWJj'', source_language = ''ASL'',
                   target_language = ''en''\<rparr>],
      inflight = 1\<rparr>"
  by (simp add: overlap_def ready_late_eq session_events_def initial_def error1_def
      startRecording_def ondataavailable_def stopRecording_def processVideo_def
      processVideoHTTP_request_def handleMessage_def handleMessage_updates_def
      env0_def ctx_down_def)

section \<open>The claims about the result handler and the channels\<close>

text \<open>
  C1. The claim: a result message tagged with a session identity other than the active
  session's leaves the projection (\<open>translationResult\<close>) and the processing flag as they
  are. The component's state holds no session identity and \<open>handleMessage\<close> reads no tag,
  so whichever identity counts as the active one (here 1), a final result tagged 2 is
  applied: the projection and the flag both change.
\<close>

theorem C1_counterexample:
  "session_id foreign_final \<noteq> 1
   \<and> translationResult (handleMessage foreign_final awaiting) \<noteq> translationResult awaiting
   \<and> isProcessing (handleMessage foreign_final awaiting) \<noteq> isProcessing awaiting"
  by (simp add: foreign_final_def awaiting_def initial_def handleMessage_def handleMessage_updates_def)

text \<open>
  C1, as amended. The handler checks no session identity: handling a message gives the same
  state for every value of its tag, a final result replaces the projection and clears the
  processing flag and a partial result replaces the projection, whatever the tag; the state
  is left as it is by a message whose type is none of \<^verbatim>\<open>translation_result\<close>,
  \<^verbatim>\<open>partial_translation\<close> and \<^verbatim>\<open>error\<close>.
\<close>

theorem C1_tag_ignored:
  fixes m :: tagged_message
  shows "handleMessage (m\<lparr>session_id := a\<rparr>) s = handleMessage (m\<lparr>session_id := b\<rparr>) s
   \<and> (msg_type m = ''translation_result'' \<longrightarrow>
        handleMessage m s = s\<lparr>translationResult := msg_data m, isProcessing := False\<rparr>)
   \<and> (msg_type m = ''partial_translation'' \<longrightarrow>
        handleMessage m s = s\<lparr>translationResult := msg_data m\<rparr>)
   \<and> (msg_type m \<notin> {''translation_result'', ''partial_translation'', ''error''} \<longrightarrow>
        handleMessage m s = s)"
  by (simp add: handleMessage_def handleMessage_updates_def)

theorem C1_tag_ignored_witness:
  "handleMessage (foreign_final\<lparr>session_id := 1\<rparr>) awaiting
     = handleMessage (foreign_final\<lparr>session_id := 2\<rparr>) awaiting
   \<and> handleMessage foreign_final awaiting
       = awaiting\<lparr>translationResult := Some \<lparr>text' = ''stale'', confidence = 0.5, features_detected = True\<rparr>,
                   isProcessing := False\<rparr>
   \<and> handleMessage (foreign_final\<lparr>msg_type := ''ping''\<rparr>) awaiting = awaiting"
proof -
  have t: "msg_type foreign_final = ''translation_result''"
    and d: "msg_data foreign_final = Some \<lparr>text' = ''stale'', confidence = 0.5, features_detected = True\<rparr>"
    by (simp_all add: foreign_final_def)
  have o: "msg_type (foreign_final\<lparr>msg_type := ''ping''\<rparr>)
      \<notin> {''translation_result'', ''partial_translation'', ''error''}"
    by simp
  from C1_tag_ignored [where m = foreign_final and a = 1 and b = 2 and s = awaiting]
  have 1: "handleMessage (foreign_final\<lparr>session_id := 1\<rparr>) awaiting
      = handleMessage (foreign_final\<lparr>session_id := 2\<rparr>) awaiting"
    by blast
  from C1_tag_ignored [where m = foreign_final and a = 1 and b = 2 and s = awaiting] t d
  have 2: "handleMessage foreign_final awaiting
       = awaiting\<lparr>translationResult := Some \<lparr>text' = ''stale'', confidence = 0.5, features_detected = True\<rparr>,
                   isProcessing := False\<rparr>"
    by (simp only: simp_thms)
  from C1_tag_ignored [where m = "foreign_final\<lparr>msg_type := ''ping''\<rparr>" and a = 1 and b = 2 and s = awaiting] o
  have 3: "handleMessage (foreign_final\<lparr>msg_type := ''ping''\<rparr>) awaiting = awaiting"
    by blast
  from 1 2 3 show ?thesis by blast
qed

text \<open>
  C2. Partial results \<open>ps\<close> followed by one final result \<open>f\<close>, handled in order from any
  state \<open>s\<close>: the projection ends equal to the data of \<open>f\<close>, whatever \<open>ps\<close> is, and the
  processing flag ends cleared; the partials leave the flag as it was (set, in the Awaiting
  Result phase), and each of them, applied to any state, replaces the projection and
  nothing else.
\<close>

theorem C2_final_after_partials:
  assumes "\<forall>p \<in> set ps. msg_type p = ''partial_translation''"
    and "msg_type f = ''translation_result''"
  shows "translationResult (deliver (ps @ [f]) s) = msg_data f
       \<and> \<not> isProcessing (deliver (ps @ [f]) s)
       \<and> isProcessing (deliver ps s) = isProcessing s
       \<and> (\<forall>p \<in> set ps. \<forall>s'. handleMessage p s' = s'\<lparr>translationResult := msg_data p\<rparr>)"
  using assms
  by (simp add: deliver_append handleMessage_final handleMessage_partial deliver_partials_flag)

theorem C2_final_after_partials_witness:
  "translationResult (deliver ([hello1, hello2] @ [hello3]) awaiting)
     = Some \<lparr>text' = ''hello world'', confidence = 0.95, features_detected = True\<rparr>
   \<and> \<not> isProcessing (deliver ([hello1, hello2] @ [hello3]) awaiting)
   \<and> isProcessing (deliver [hello1, hello2] awaiting)
   \<and> translationResult (handleMessage hello1 awaiting)
       = Some \<lparr>text' = ''hello'', confidence = 0.4, features_detected = False\<rparr>"
proof -
  have p: "\<forall>p \<in> set [hello1, hello2]. msg_type p = ''partial_translation''"
    by (simp add: hello1_def hello2_def)
  have f: "msg_type hello3 = ''translation_result''"
    by (simp add: hello3_def)
  note w = C2_final_after_partials [OF p f, of awaiting]
  have d: "msg_data hello3 = Some \<lparr>text' = ''hello world'', confidence = 0.95, features_detected = True\<rparr>"
    by (simp add: hello3_def)
  have a: "isProcessing awaiting" by (simp add: awaiting_def)
  have h: "translationResult (handleMessage hello1 awaiting)
       = Some \<lparr>text' = ''hello'', confidence = 0.4, features_detected = False\<rparr>"
    by (simp add: hello1_def handleMessage_partial)
  from w d have 1: "translationResult (deliver ([hello1, hello2] @ [hello3]) awaiting)
     = Some \<lparr>text' = ''hello world'', confidence = 0.95, features_detected = True\<rparr>"
    by (simp only:)
  from w have 2: "\<not> isProcessing (deliver ([hello1, hello2] @ [hello3]) awaiting)"
    by blast
  from w a have 3: "isProcessing (deliver [hello1, hello2] awaiting)"
    by blast
  from 1 2 3 h show ?thesis by (simp only: simp_thms)
qed

text \<open>
  C5. The fallback sends one request, \<open>processVideoHTTP_request\<close>. When the response is a
  success whose body parses to \<open>r\<close>, the setters called are exactly
  \<^verbatim>\<open>setTranslationResult(r)\<close> and \<^verbatim>\<open>setIsProcessing(false)\<close>: the projection is assigned
  once, from the body, together with the end of processing. In every other case no
  projection is assigned: the error text is set and processing ends. So the projection is
  assigned at most once and never without ending the session; on a non-success status the
  projection is as before and the session ends with the error set.
\<close>

theorem C5_fallback_single_result:
  "fst (processVideoHTTP env videoData outcome s) = processVideoHTTP_request env videoData
   \<and> (outcome = Response True (Json r) \<longrightarrow>
        processVideoHTTP_updates outcome = [SetTranslationResult r, SetIsProcessing False]
        \<and> snd (processVideoHTTP env videoData outcome s) = s\<lparr>translationResult := r, isProcessing := False\<rparr>)
   \<and> ((\<forall>r'. outcome \<noteq> Response True (Json r')) \<longrightarrow>
        processVideoHTTP_updates outcome
          = [SetError (Some ''Translation service unavailable. Please try again.''), SetIsProcessing False]
        \<and> snd (processVideoHTTP env videoData outcome s)
          = s\<lparr>error := Some ''Translation service unavailable. Please try again.'', isProcessing := False\<rparr>)
   \<and> (outcome = Response False b \<longrightarrow>
        translationResult (snd (processVideoHTTP env videoData outcome s)) = translationResult s
        \<and> error (snd (processVideoHTTP env videoData outcome s))
          = Some ''Translation service unavailable. Please try again.''
        \<and> \<not> isProcessing (snd (processVideoHTTP env videoData outcome s)))"
  by (auto simp: processVideoHTTP_def processVideoHTTP_updates_def split: http_outcome.splits body.splits)

theorem C5_fallback_single_result_witness:
  "snd (processVideoHTTP env0 (Some ''abc'') (Response True (Json (msg_data hello3))) awaiting)
     = awaiting\<lparr>translationResult := msg_data hello3, isProcessing := False\<rparr>
   \<and> translationResult (snd (processVideoHTTP env0 (Some ''abc'') (Response False BadJson) awaiting))
     = translationResult awaiting
   \<and> error (snd (processVideoHTTP env0 (Some ''abc'') (Response False BadJson) awaiting))
     = Some ''Translation service unavailable. Please try again.''
   \<and> \<not> isProcessing (snd (processVideoHTTP env0 (Some ''abc'') (Response False BadJson) awaiting))"
proof -
  from C5_fallback_single_result [where outcome = "Response True (Json (msg_data hello3))"
      and r = "msg_data hello3" and env = env0 and videoData = "Some ''abc''" and s = awaiting]
  have 1: "snd (processVideoHTTP env0 (Some ''abc'') (Response True (Json (msg_data hello3))) awaiting)
     = awaiting\<lparr>translationResult := msg_data hello3, isProcessing := False\<rparr>"
    by blast
  from C5_fallback_single_result [where outcome = "Response False BadJson"
      and b = BadJson and env = env0 and videoData = "Some ''abc''" and s = awaiting]
  have 2: "translationResult (snd (processVideoHTTP env0 (Some ''abc'') (Response False BadJson) awaiting))
     = translationResult awaiting
   \<and> error (snd (processVideoHTTP env0 (Some ''abc'') (Response False BadJson) awaiting))
     = Some ''Translation service unavailable. Please try again.''
   \<and> \<not> isProcessing (snd (processVideoHTTP env0 (Some ''abc'') (Response False BadJson) awaiting))"
    by blast
  from 1 2 show ?thesis by blast
qed

text \<open>
  C9. The claim: a call of \<open>sendMessage\<close> made while the socket is absent or the connection
  is down emits nothing, so that a translation request sent in that window is dropped. In
  \<open>after_loss\<close> the connection is down when the session runs; the \<^verbatim>\<open>sendMessage\<close> the
  component calls is the one of its first render, whose \<^verbatim>\<open>isConnected\<close> is true, and the
  request is emitted. And where the context value in scope says the connection is down,
  \<open>processVideo\<close> does not call \<open>sendMessage\<close> at all: the request goes by the fallback.
\<close>

theorem C9_counterexample:
  "\<not> isConnected (provided after_loss)
   \<and> sent (run env0 session_events after_loss)
       = [Emit 1 ''translation_request''
            \<lparr>video_data = Some ''data:video/webm;base64,YWJj'', source_language = ''ASL'',
               target_language = ''en''\<rparr>]
   \<and> processVideo ctx_down env0 ''abc''
       = ([], [Post ''https://api.pinksync.io/api/translation/sign-to-text'' ''Bearer t0''
            \<lparr>video_data = Some ''data:video/webm;base64,YWJj'', source_language = ''ASL'',
               target_language = ''en''\<rparr>])"
  by (simp add: after_loss_def session_events_def mount_def initial_def on_disconnect_def
      startRecording_def ondataavailable_def stopRecording_def processVideo_def sendMessage_def
      processVideoHTTP_request_def env0_def ctx_up_def ctx_down_def)

text \<open>
  C9, as amended. A call of \<open>sendMessage\<close> is a silent no-op (nothing is emitted; the
  function raises no error and sets no state) when the socket of its own context value,
  the one of the render that made the function, is absent or the \<^verbatim>\<open>isConnected\<close> of that
  value is false; with both there it emits on that socket. The state of the connection at
  the time of the call is not read. No translation request of the component is dropped by
  it: for every context value the provider renders, \<open>processVideo\<close> calls no setter and
  sends the request exactly once, on the value's socket when its \<^verbatim>\<open>isConnected\<close> is true
  and by the fallback when it is false.
\<close>

theorem C9_send_guard:
  "(socket ctx = None \<or> \<not> isConnected ctx \<longrightarrow> sendMessage ctx ty d = [])
   \<and> (socket ctx = Some sk \<and> isConnected ctx \<longrightarrow> sendMessage ctx ty d = [Emit sk ty d])
   \<and> (reader env videoBlob = LoadEnd v \<and> isConnected (provider_run evs provider_initial) \<longrightarrow>
        (\<exists>sk'. socket (provider_run evs provider_initial) = Some sk'
           \<and> processVideo (provider_run evs provider_initial) env videoBlob
               = ([], [Emit sk' ''translation_request''
                         \<lparr>video_data = v, source_language = ''ASL'', target_language = ''en''\<rparr>])))
   \<and> (reader env videoBlob = LoadEnd v \<and> \<not> isConnected (provider_run evs provider_initial) \<longrightarrow>
        processVideo (provider_run evs provider_initial) env videoBlob
          = ([], [processVideoHTTP_request env v]))"
proof -
  have "isConnected (provider_run evs provider_initial) \<Longrightarrow>
        \<exists>sk'. socket (provider_run evs provider_initial) = Some sk'"
    using provider_run_socket [of provider_initial evs] by (simp add: provider_initial_def)
  then show ?thesis
    by (auto simp: sendMessage_def processVideo_def split: option.splits)
qed

theorem C9_send_guard_witness:
  "sendMessage ctx_down ''translation_request''
      \<lparr>video_data = Some ''abc'', source_language = ''ASL'', target_language = ''en''\<rparr> = []
   \<and> sendMessage ctx_up ''translation_request''
      \<lparr>video_data = Some ''abc'', source_language = ''ASL'', target_language = ''en''\<rparr>
       = [Emit 1 ''translation_request''
            \<lparr>video_data = Some ''abc'', source_language = ''ASL'', target_language = ''en''\<rparr>]
   \<and> processVideo (provider_run [Open 1, Connect, Disconnect] provider_initial) env0 ''abc''
       = ([], [processVideoHTTP_request env0 (Some ''data:video/webm;base64,YWJj'')])
   \<and> (\<exists>sk'. processVideo (provider_run [Open 1, Connect] provider_initial) env0 ''abc''
               = ([], [Emit sk' ''translation_request''
                         \<lparr>video_data = Some ''data:video/webm;base64,YWJj'', source_language = ''ASL'',
                            target_language = ''en''\<rparr>]))"
proof -
  have a: "socket ctx_down = None \<or> \<not> isConnected ctx_down"
    by (simp add: ctx_down_def)
  have b: "socket ctx_up = Some 1 \<and> isConnected ctx_up"
    by (simp add: ctx_up_def)
  have r: "reader env0 ''abc'' = LoadEnd (Some ''data:video/webm;base64,YWJj'')"
    by (simp add: env0_def)
  have d: "\<not> isConnected (provider_run [Open 1, Connect, Disconnect] provider_initial)"
    by (simp add: provider_initial_def on_connect_def on_disconnect_def)
  have u: "isConnected (provider_run [Open 1, Connect] provider_initial)"
    by (simp add: provider_initial_def on_connect_def)
  from C9_send_guard [where ctx = ctx_down and sk = 1 and env = env0 and videoBlob = "''abc''"
      and v = "Some ''data:video/webm;base64,YWJj''" and evs = "[Open 1, Connect, Disconnect]"] a
  have 1: "sendMessage ctx_down ''translation_request''
      \<lparr>video_data = Some ''abc'', source_language = ''ASL'', target_language = ''en''\<rparr> = []"
    by blast
  from C9_send_guard [where ctx = ctx_up and sk = 1 and env = env0 and videoBlob = "''abc''"
      and v = "Some ''data:video/webm;base64,YWJj''" and evs = "[Open 1, Connect, Disconnect]"] b
  have 2: "sendMessage ctx_up ''translation_request''
      \<lparr>video_data = Some ''abc'', source_language = ''ASL'', target_language = ''en''\<rparr>
       = [Emit 1 ''translation_request''
            \<lparr>video_data = Some ''abc'', source_language = ''ASL'', target_language = ''en''\<rparr>]"
    by blast
  from C9_send_guard [where ctx = ctx_up and sk = 1 and env = env0 and videoBlob = "''abc''"
      and v = "Some ''data:video/webm;base64,YWJj''" and evs = "[Open 1, Connect, Disconnect]"] r d
  have 3: "processVideo (provider_run [Open 1, Connect, Disconnect] provider_initial) env0 ''abc''
       = ([], [processVideoHTTP_request env0 (Some ''data:video/webm;base64,YWJj'')])"
    by blast
  from C9_send_guard [where ctx = ctx_up and sk = 1 and env = env0 and videoBlob = "''abc''"
      and v = "Some ''data:video/webm;base64,YWJj''" and evs = "[Open 1, Connect]"] r u
  have 4: "\<exists>sk'. processVideo (provider_run [Open 1, Connect] provider_initial) env0 ''abc''
               = ([], [Emit sk' ''translation_request''
                         \<lparr>video_data = Some ''data:video/webm;base64,YWJj'', source_language = ''ASL'',
                            target_language = ''en''\<rparr>])"
    by blast
  from 1 2 3 4 show ?thesis by blast
qed

text \<open>
  C10. The claim: \<open>offMessage\<close> after \<open>onMessage\<close> with the same callback gives back the
  registry as it was before. It does not when the callback was registered already:
  \<open>onMessage\<close> then changes nothing and \<open>offMessage\<close> removes the earlier registration.
\<close>

theorem C10_counterexample:
  "offMessage (0::nat) (onMessage 0 [0]) \<noteq> [0]"
  by (simp add: offMessage_def onMessage_def)

text \<open>
  C10, as amended. The registry behaves as a set: \<open>onMessage\<close> is idempotent and changes
  nothing for a registered callback; its members after \<open>onMessage\<close> are the old ones and
  the callback, after \<open>offMessage\<close> the old ones without it, and no callback is held twice;
  \<open>offMessage\<close> after \<open>onMessage\<close> gives back the prior registry when the callback was not
  registered before (and in general the prior registry without the callback); after
  \<open>offMessage\<close> an incoming message makes no call of that callback.
\<close>

theorem C10_registry:
  "onMessage cb (onMessage cb cbs) = onMessage cb cbs
   \<and> (cb \<in> set cbs \<longrightarrow> onMessage cb cbs = cbs)
   \<and> set (onMessage cb cbs) = insert cb (set cbs)
   \<and> set (offMessage cb cbs) = set cbs - {cb}
   \<and> (distinct cbs \<longrightarrow> distinct (onMessage cb cbs) \<and> distinct (offMessage cb cbs))
   \<and> (cb \<notin> set cbs \<longrightarrow> offMessage cb (onMessage cb cbs) = cbs)
   \<and> offMessage cb (onMessage cb cbs) = offMessage cb cbs
   \<and> cb \<notin> fst ` set (on_message (offMessage cb cbs) m)"
  by (auto simp: onMessage_def offMessage_def on_message_def distinct_removeAll)

theorem C10_registry_witness:
  "onMessage (0::nat) [0, 1] = [0, 1]
   \<and> distinct (onMessage (2::nat) [0, 1]) \<and> distinct (offMessage (0::nat) [0, 1])
   \<and> offMessage (2::nat) (onMessage 2 [0, 1]) = [0, 1]
   \<and> (0::nat) \<notin> fst ` set (on_message (offMessage 0 [0, 1]) hello1)"
proof -
  have a: "(0::nat) \<in> set [0, 1]" and b: "distinct [0, 1::nat]" and c: "(2::nat) \<notin> set [0, 1]"
    by simp_all
  from C10_registry [of "0::nat" "[0, 1]" hello1] a
  have 1: "onMessage (0::nat) [0, 1] = [0, 1]" by blast
  from C10_registry [of "2::nat" "[0, 1]" hello1] b
  have 2: "distinct (onMessage (2::nat) [0, 1])" by blast
  from C10_registry [of "0::nat" "[0, 1]" hello1] b
  have 3: "distinct (offMessage (0::nat) [0, 1])" by blast
  from C10_registry [of "2::nat" "[0, 1]" hello1] c
  have 4: "offMessage (2::nat) (onMessage 2 [0, 1]) = [0, 1]" by blast
  from C10_registry [of "0::nat" "[0, 1]" hello1]
  have 5: "(0::nat) \<notin> fst ` set (on_message (offMessage 0 [0, 1]) hello1)" by blast
  from 1 2 3 4 5 show ?thesis by blast
qed


section \<open>The claims about the session\<close>

text \<open>
  C3. The claim: a start while a session is active fails with AlreadyActive or cancels the
  session before, and no two sessions ever proceed together. In \<open>overlap\<close> the request of
  the first session is still in flight, and both flags are clear. The click on Start is
  accepted: recording begins, no error is set and the request stays in flight; when its
  response arrives, the first session's result becomes the projection while the second
  session records.
\<close>

theorem C3_counterexample:
  "inflight overlap = 1 \<and> \<not> isRecording (st overlap) \<and> \<not> isProcessing (st overlap)
   \<and> isRecording (st (step env0 (ClickStart :: message event) overlap))
   \<and> error (st (step env0 (ClickStart :: message event) overlap)) = None
   \<and> inflight (step env0 (ClickStart :: message event) overlap) = 1
   \<and> isRecording (st (run env0 [ClickStart, HttpSettled (Response True (Json (msg_data hello3)))
         :: message event] overlap))
   \<and> translationResult (st (run env0 [ClickStart, HttpSettled (Response True (Json (msg_data hello3)))
         :: message event] overlap)) = msg_data hello3"
  by (simp add: overlap_eq startRecording_def processVideoHTTP_updates_def)

text \<open>
  C3, as amended. \<open>startRecording\<close> makes no check for an active session: with the webcam
  stream present it neither fails nor cancels, it leaves every recorder there is as it is
  and starts one more, and it leaves the processing flag as it is (without the stream it
  does nothing). Its one call site is the Start button, which is shown only while
  \<^verbatim>\<open>isRecording\<close> is false and is disabled while \<^verbatim>\<open>isProcessing\<close> is true. So a click on
  Start changes nothing while one of the two flags is set, and in every run of the
  component's events from its mount at most one recorder is recording. With the camera
  granted and both flags clear the click is accepted whatever is still in flight, and no
  click on Start changes what has been sent or what is in flight: a session whose request
  has not ended is neither a reason to refuse nor cancelled.
\<close>

theorem C3_start_policy:
  "(stream s \<longrightarrow>
      recorders (startRecording ctx s) = recorders s @ [\<lparr>rec_state = Recording, onstop_ctx = ctx\<rparr>]
      \<and> isRecording (startRecording ctx s) \<and> error (startRecording ctx s) = None
      \<and> isProcessing (startRecording ctx s) = isProcessing s)
   \<and> (\<not> stream s \<longrightarrow> startRecording ctx s = s)
   \<and> (isRecording (st c) \<or> isProcessing (st c) \<longrightarrow> step env ClickStart c = c)
   \<and> (permissionGranted (st c) \<and> \<not> isRecording (st c) \<and> \<not> isProcessing (st c) \<longrightarrow>
        step env ClickStart c = c\<lparr>st := startRecording (captured c) (st c)\<rparr>)
   \<and> sent (step env ClickStart c) = sent c
   \<and> inflight (step env ClickStart c) = inflight c
   \<and> recording (st (run env es (mount ctx'))) \<le> 1"
proof -
  have "one_recorder (st (mount ctx'))"
    by (simp add: one_recorder_def recording_def mount_def initial_def)
  then have "one_recorder (st (run env es (mount ctx')))"
    by (rule run_one_recorder)
  then have "recording (st (run env es (mount ctx'))) \<le> 1"
    by (simp add: one_recorder_def)
  then show ?thesis
    by (simp add: startRecording_def)
qed

theorem C3_start_policy_witness:
  "recorders (startRecording ctx_up (st ready_up)) = [\<lparr>rec_state = Recording, onstop_ctx = ctx_up\<rparr>]
   \<and> isRecording (startRecording ctx_up (st ready_up))
   \<and> startRecording ctx_up initial = initial
   \<and> step env0 (ClickStart :: message event) waiting_up = waiting_up
   \<and> step env0 (ClickStart :: message event) overlap
       = overlap\<lparr>st := startRecording (captured overlap) (st overlap)\<rparr>
   \<and> inflight (step env0 (ClickStart :: message event) overlap) = inflight overlap
   \<and> recording (st (run env0 session_events (mount ctx_up))) \<le> 1"
proof -
  have a: "stream (st ready_up)" and r: "recorders (st ready_up) = []"
    by (simp_all add: ready_up_eq initial_def)
  have b: "\<not> stream initial" by (simp add: initial_def)
  have c: "isRecording (st waiting_up) \<or> isProcessing (st waiting_up)"
    by (simp add: waiting_up_eq)
  have d: "permissionGranted (st overlap) \<and> \<not> isRecording (st overlap) \<and> \<not> isProcessing (st overlap)"
    by (simp add: overlap_eq)
  note w = C3_start_policy [where s = "st ready_up" and ctx = ctx_up and c = waiting_up
      and env = env0 and es = session_events and ctx' = ctx_up]
  note v = C3_start_policy [where s = initial and ctx = ctx_up and c = overlap
      and env = env0 and es = session_events and ctx' = ctx_up]
  from w a r have 1: "recorders (startRecording ctx_up (st ready_up))
      = [\<lparr>rec_state = Recording, onstop_ctx = ctx_up\<rparr>]"
    by simp
  from w a have 2: "isRecording (startRecording ctx_up (st ready_up))" by blast
  from v b have 3: "startRecording ctx_up initial = initial" by blast
  from w c have 4: "step env0 (ClickStart :: message event) waiting_up = waiting_up" by blast
  from v d have 5: "step env0 (ClickStart :: message event) overlap
       = overlap\<lparr>st := startRecording (captured overlap) (st overlap)\<rparr>" by blast
  from v have 6: "inflight (step env0 (ClickStart :: message event) overlap) = inflight overlap"
    by blast
  from w have 7: "recording (st (run env0 session_events (mount ctx_up))) \<le> 1" by blast
  from 1 2 3 4 5 6 7 show ?thesis by blast
qed

text \<open>
  C4. The claim: the channel is chosen once, at the start of the session, by whether the
  streaming channel reports itself connected then. \<open>processVideo\<close> does choose once per
  session, by the \<^verbatim>\<open>isConnected\<close> in its scope (\<open>processVideo_choice\<close>); but the
  \<^verbatim>\<open>processVideo\<close> a session runs is the one \<^verbatim>\<open>startRecording\<close> reaches, and
  \<^verbatim>\<open>useCallback(..., [])\<close> keeps the \<^verbatim>\<open>startRecording\<close> of the first render. The choice
  of every session is therefore made by the context value of the mount
  (\<open>recorders_onstop_mount\<close>, \<open>sent_mount_down\<close>). Here the component
  mounts before the socket has connected; the connection is up when the session starts,
  and still the payload goes out by the fallback request.
\<close>

theorem C4_stale_choice:
  "provided ready_late = ctx_up \<and> isConnected (provided ready_late)
   \<and> sent (run env0 session_events ready_late)
       = [Post ''https://api.pinksync.io/api/translation/sign-to-text'' ''Bearer t0''
            \<lparr>video_data = Some ''data:video/webm;base64,YWJj'', source_language = ''ASL'',
               target_language = ''en''\<rparr>]"
  by (simp add: ready_late_eq session_events_def initial_def startRecording_def ondataavailable_def
      stopRecording_def processVideo_def processVideoHTTP_request_def env0_def ctx_up_def ctx_down_def)

text \<open>
  C6. The claim: a cancel operation takes every non-idle state to Idle, and no projection
  update follows. The component has no such operation. \<open>stopRecording\<close>, the one operation
  that ends a phase, takes the recording state to the waiting one (the processing flag is
  set), where a final result that arrives is applied; called again there, it changes
  nothing, so the state stays non-idle.
\<close>

theorem C6_counterexample:
  "stopRecording recording1 = Inr stopped1
   \<and> isProcessing stopped1
   \<and> translationResult (handleMessage hello3 stopped1) \<noteq> translationResult stopped1
   \<and> stopRecording stopped1 = Inr stopped1"
  by (simp add: stopped1_def recording1_eq stopRecording_def hello3_def handleMessage_def
      handleMessage_updates_def)

text \<open>
  C6, as amended. There is no cancel operation. \<open>stopRecording\<close> acts only while
  \<^verbatim>\<open>isRecording\<close> is set and a recorder is referenced: it stops that recorder, clears
  \<^verbatim>\<open>isRecording\<close> and sets \<^verbatim>\<open>isProcessing\<close>, which is the step from Capturing to Awaiting
  Result, not to Idle; in every other state, Awaiting Result among them, it changes nothing.
  It never changes the projection or clears the processing flag, and a final result that
  arrives after it is applied to the projection.
\<close>

theorem C6_stop_only:
  "(mediaRecorderRef s = Some i \<and> isRecording s \<and> i < length (recorders s)
      \<and> rec_state (recorders s ! i) = Recording \<longrightarrow>
      stopRecording s = Inr (s\<lparr>recorders := (recorders s)[i := (recorders s ! i)\<lparr>rec_state := Stopped\<rparr>],
                               isRecording := False, isProcessing := True\<rparr>))
   \<and> (mediaRecorderRef s = None \<or> \<not> isRecording s \<longrightarrow> stopRecording s = Inr s)
   \<and> (stopRecording s = Inr s' \<longrightarrow>
        translationResult s' = translationResult s \<and> (isProcessing s \<longrightarrow> isProcessing s')
        \<and> (msg_type m = ''translation_result'' \<longrightarrow>
             translationResult (handleMessage m s') = msg_data m))"
  by (auto simp: stopRecording_def handleMessage_final split: option.splits if_splits)

theorem C6_stop_only_witness:
  "stopRecording recording1 = Inr stopped1
   \<and> stopRecording awaiting = Inr awaiting
   \<and> translationResult stopped1 = translationResult recording1
   \<and> translationResult (handleMessage hello3 stopped1) = msg_data hello3"
proof -
  have a: "mediaRecorderRef recording1 = Some 0 \<and> isRecording recording1
      \<and> 0 < length (recorders recording1) \<and> rec_state (recorders recording1 ! 0) = Recording"
    by (simp add: recording1_eq)
  have e: "recording1\<lparr>recorders := (recorders recording1)[0 := (recorders recording1 ! 0)\<lparr>rec_state := Stopped\<rparr>],
      isRecording := False, isProcessing := True\<rparr> = stopped1"
    by (simp add: stopped1_def recording1_eq)
  have b: "mediaRecorderRef awaiting = None \<or> \<not> isRecording awaiting"
    by (simp add: awaiting_def initial_def)
  have f: "msg_type hello3 = ''translation_result''" by (simp add: hello3_def)
  note w = C6_stop_only [where s = recording1 and i = 0 and s' = stopped1 and m = hello3]
  from w a e have 1: "stopRecording recording1 = Inr stopped1" by simp
  from C6_stop_only [where s = awaiting and i = 0 and s' = awaiting and m = hello3] b
  have 2: "stopRecording awaiting = Inr awaiting" by blast
  from w 1 have 3: "translationResult stopped1 = translationResult recording1" by blast
  from w 1 f have 4: "translationResult (handleMessage hello3 stopped1) = msg_data hello3" by blast
  from 1 2 3 4 show ?thesis by blast
qed

text \<open>
  C7. The claim: the wait for a result is bounded, it ends in a Timeout failure, and a start
  after it succeeds. The component sets no timer: none of its handlers is driven by time.
  After a session has sent its request over the streaming channel, with no message
  arriving, the state stays as it is: the processing flag set, no error, nothing pending;
  and a click on Start changes nothing.
\<close>

theorem C7_counterexample:
  "sent waiting_up = [Emit 1 ''translation_request''
        \<lparr>video_data = Some ''data:video/webm;base64,YWJj'', source_language = ''ASL'', target_language = ''en''\<rparr>]
   \<and> inflight waiting_up = 0
   \<and> isProcessing (st waiting_up) \<and> error (st waiting_up) = None
   \<and> step env0 (ClickStart :: message event) waiting_up = waiting_up"
  by (simp add: waiting_up_eq)

text \<open>
  C7, as amended. The wait in Awaiting Result is not bounded and there is no Timeout
  failure: the processing flag stays set and the error stays as it is through every sequence
  of events other than a final result or an error message, the end of a fallback request, a
  recorder's stop event and a permission denial; and while the flag is set, a click on Start
  changes nothing.
\<close>

theorem C7_wait_unbounded:
  assumes "isProcessing (st c)" and "\<forall>e \<in> set es. quiet e"
  shows "isProcessing (st (run env es c))
       \<and> error (st (run env es c)) = error (st c)
       \<and> step env ClickStart (run env es c) = run env es c"
  using run_quiet [OF assms(2) assms(1), of env] by simp

theorem C7_wait_unbounded_witness:
  "isProcessing (st (run env0 [Render ctx_down, Incoming hello1, ClickStart, ClickStop, GetUserMedia True] waiting_up))
   \<and> error (st (run env0 [Render ctx_down, Incoming hello1, ClickStart, ClickStop, GetUserMedia True] waiting_up)) = None
   \<and> step env0 ClickStart (run env0 [Render ctx_down, Incoming hello1, ClickStart, ClickStop, GetUserMedia True] waiting_up)
       = run env0 [Render ctx_down, Incoming hello1, ClickStart, ClickStop, GetUserMedia True] waiting_up"
proof -
  have p: "isProcessing (st waiting_up)" and e: "error (st waiting_up) = None"
    by (simp_all add: waiting_up_eq)
  have q: "\<forall>e \<in> set [Render ctx_down, Incoming hello1, ClickStart, ClickStop, GetUserMedia True]. quiet e"
    by (simp add: hello1_def)
  from C7_wait_unbounded [OF p q, of env0] e show ?thesis by (simp only:)
qed




end
